theory Spec2Isabelle
  imports Main
begin

section \<open>Data model\<close>

text \<open>
  The component \<^verbatim>\<open>AppointmentDetails\<close> (src/src/components/AppointmentDetails.tsx) is a
  function of its props (an appointment object and an \<^verbatim>\<open>onClose\<close> callback), of the
  session user of the authentication context, and of five pieces of local state. Its
  handlers call operations of the appointment context, which are recorded here as a trace
  of external calls.

  A JavaScript string is modelled as \<^typ>\<open>string\<close>; one \<^typ>\<open>char\<close> stands for one UTF-16
  code unit. The literals of the component all lie in the Latin-1 range, where the code
  unit is the \<^typ>\<open>char\<close> of the same number (e with circumflex is \<^term>\<open>CHR 0xEA\<close>, i with acute is
  \<^term>\<open>CHR 0xED\<close>).
\<close>

text \<open>
  Modelled from the spec: the type \<^verbatim>\<open>Appointment\<close>, imported from \<^verbatim>\<open>@/types/appointment\<close>,
  which is not under src/. The record has the properties whose values decide what the
  component does, typed as the component uses them (\<^verbatim>\<open>useState<string>(appointment.date)\<close>,
  \<^verbatim>\<open>appointment.insuranceToken || ""\<close> for the optional token). The properties that are
  only printed (patient, psychologist name, room name, value) and any further ones live in
  the extension slot of the record, so that a copy of the object carries them along.
\<close>

record appointment =
  id_appt :: string
  psychologistId :: string
  date :: string
  startTime :: string
  endTime :: string
  paymentMethod :: string
  insuranceType :: string
  insuranceToken :: "string option"
  status :: string

text \<open>
  Modelled from the spec: the session user of \<^verbatim>\<open>useAuth\<close> (\<^verbatim>\<open>@/context/AuthContext\<close>, not
  under src/): a role string, and no user at all when nobody is signed in
  (\<^verbatim>\<open>user?.role\<close>).
\<close>

record user =
  role :: string

text \<open>
  Modelled from the spec: the slot returned by \<^verbatim>\<open>findNextAvailableSlot\<close>
  (\<^verbatim>\<open>@/context/AppointmentContext\<close>, not under src/). Its date is a \<^verbatim>\<open>Date\<close> object, handed
  to \<^verbatim>\<open>format\<close> of date-fns; it is modelled by its time value.
\<close>

type_synonym jsDate = int

record slot =
  date_slot :: jsDate
  startTime_slot :: string
  endTime_slot :: string

section \<open>Role-gated visibility\<close>

definition isAdmin :: "user option \<Rightarrow> bool" where
  "isAdmin u = (case u of None \<Rightarrow> False | Some usr \<Rightarrow> role usr = ''admin'')"

definition isReceptionist :: "user option \<Rightarrow> bool" where
  "isReceptionist u = (case u of None \<Rightarrow> False | Some usr \<Rightarrow> role usr = ''receptionist'')"

definition isPsychologist :: "user option \<Rightarrow> bool" where
  "isPsychologist u = (case u of None \<Rightarrow> False | Some usr \<Rightarrow> role usr = ''psychologist'')"

definition canManage :: "user option \<Rightarrow> bool" where
  "canManage u = (isAdmin u \<or> isReceptionist u \<or> isPsychologist u)"

definition canEditToken :: "user option \<Rightarrow> bool" where
  "canEditToken u = (isAdmin u \<or> isReceptionist u \<or> isPsychologist u)"

definition shouldShowTokenInput :: "user option \<Rightarrow> 'a appointment_scheme \<Rightarrow> bool" where
  "shouldShowTokenInput u appointment =
     (paymentMethod appointment = ''insurance'' \<and>
      (status appointment = ''pending'' \<or> status appointment = ''confirmed'') \<and>
      canEditToken u)"

section \<open>Objects, local state and external calls\<close>

text \<open>
  The appointment is an object that the component shares with its parent and with the
  appointment context. Objects live in a store and are addressed by reference; a store is
  the list of its objects and a reference is a position in it. An object literal allocates
  a new object at the end of the store.
\<close>

type_synonym ref = nat

type_synonym 'a heap = "'a appointment_scheme list"

definition alloc :: "'a heap \<Rightarrow> 'a appointment_scheme \<Rightarrow> ref \<times> 'a heap" where
  "alloc h obj = (length h, h @ [obj])"
text \<open>
  The five \<^verbatim>\<open>useState\<close> cells; the draft token is named \<^verbatim>\<open>insuranceToken\<close> in the source,
  as the property of the appointment is. With them goes the one value that the markup
  leaves to a child to keep: the status select is given \<^verbatim>\<open>defaultValue\<close> and no
  \<^verbatim>\<open>value\<close>, so it holds its current value itself (\<open>selectValue\<close>).
\<close>

record cstate =
  isReschedulingOpen :: bool
  newDate :: string
  newStartTime :: string
  newEndTime :: string
  insuranceToken_draft :: string
  selectValue :: string

text \<open>
  The initial values of the cells, taken at the first render. \<^verbatim>\<open>x || ""\<close> is \<^verbatim>\<open>""\<close> when
  \<^verbatim>\<open>x\<close> is undefined or the empty string. The select starts from its \<^verbatim>\<open>defaultValue\<close>,
  the status of the appointment.
\<close>

definition initialState :: "'a appointment_scheme \<Rightarrow> cstate" where
  "initialState appointment =
     \<lparr> isReschedulingOpen = False,
       newDate = date appointment,
       newStartTime = startTime appointment,
       newEndTime = endTime appointment,
       insuranceToken_draft =
         (case insuranceToken appointment of
            None \<Rightarrow> []
          | Some t \<Rightarrow> if t = [] then [] else t),
       selectValue = status appointment \<rparr>"

text \<open>
  What the surroundings answer when the component asks: the slot search of the appointment
  context; \<^verbatim>\<open>format\<close> of date-fns, called with a date and a pattern (\<open>format\<close>) and
  called with a date, a pattern and the Brazilian Portuguese locale (\<open>format_ptBR\<close>);
  the constructor \<^verbatim>\<open>new Date\<close> on a string (\<open>new_Date\<close>), which gives no time value when
  the string does not parse (an Invalid Date); and the browser's blocking
  \<^verbatim>\<open>window.confirm\<close>. None of them is under src/; they are parameters of the model.
\<close>

record env =
  findNextAvailableSlot :: "string \<Rightarrow> slot option"
  format :: "jsDate \<Rightarrow> string \<Rightarrow> string"
  format_ptBR :: "jsDate \<Rightarrow> string \<Rightarrow> string"
  new_Date :: "string \<Rightarrow> jsDate option"
  window_confirm :: "string \<Rightarrow> bool"

text \<open>
  The calls a handler makes to anything outside the component, in the order it makes them.
  \<open>UpdateAppointment\<close> carries the reference of the object it is given.
\<close>

datatype effect =
    UpdateAppointmentStatus string string
  | DeleteAppointment string
  | FindNextAvailableSlot string
  | RescheduleAppointment string string string string
  | UpdateAppointment ref
  | Toast string string
  | WindowConfirm string
  | OnClose

text \<open>
  The exception a render can end in: \<^verbatim>\<open>format\<close> throws a \<^verbatim>\<open>RangeError\<close> when it is handed an
  Invalid Date.
\<close>

datatype error = RangeError

section \<open>Handlers\<close>

text \<open>
  A handler runs in the closure of one render: \<open>a\<close> is the reference of the appointment
  prop, \<open>h\<close> the store and \<open>st\<close> the local state of that render. It returns the calls it
  made, the store and the local state it leaves.
\<close>

definition handleStatusChange ::
  "ref \<Rightarrow> string \<Rightarrow> 'a heap \<times> cstate \<Rightarrow> effect list \<times> 'a heap \<times> cstate" where
  "handleStatusChange a status' = (\<lambda>(h, st).
     ([UpdateAppointmentStatus (id_appt (h ! a)) status'], h, st))"

definition handleDelete ::
  "env \<Rightarrow> ref \<Rightarrow> 'a heap \<times> cstate \<Rightarrow> effect list \<times> 'a heap \<times> cstate" where
  "handleDelete e a = (\<lambda>(h, st).
     (if window_confirm e ''Tem certeza que deseja cancelar este agendamento?''
      then ([WindowConfirm ''Tem certeza que deseja cancelar este agendamento?'',
             DeleteAppointment (id_appt (h ! a)),
             OnClose], h, st)
      else ([WindowConfirm ''Tem certeza que deseja cancelar este agendamento?''], h, st)))"

definition handleOpenReschedule ::
  "env \<Rightarrow> ref \<Rightarrow> 'a heap \<times> cstate \<Rightarrow> effect list \<times> 'a heap \<times> cstate" where
  "handleOpenReschedule e a = (\<lambda>(h, st).
     (let nextSlot = findNextAvailableSlot e (psychologistId (h ! a));
          st1 = (case nextSlot of
                   Some s \<Rightarrow> st\<lparr> newDate := format e (date_slot s) ''yyyy-MM-dd'',
                                newStartTime := startTime_slot s,
                                newEndTime := endTime_slot s \<rparr>
                 | None \<Rightarrow> st)
      in ([FindNextAvailableSlot (psychologistId (h ! a))], h,
          st1\<lparr> isReschedulingOpen := True \<rparr>)))"

definition handleReschedule ::
  "ref \<Rightarrow> 'a heap \<times> cstate \<Rightarrow> effect list \<times> 'a heap \<times> cstate" where
  "handleReschedule a = (\<lambda>(h, st).
     ([RescheduleAppointment (id_appt (h ! a)) (newDate st) (newStartTime st) (newEndTime st)],
      h, st\<lparr> isReschedulingOpen := False \<rparr>))"

definition handleSaveToken ::
  "ref \<Rightarrow> 'a heap \<times> cstate \<Rightarrow> effect list \<times> 'a heap \<times> cstate" where
  "handleSaveToken a = (\<lambda>(h, st).
     (let (updatedAppointment, h') =
            alloc h ((h ! a)\<lparr> insuranceToken := Some (insuranceToken_draft st) \<rparr>)
      in ([UpdateAppointment updatedAppointment,
           Toast ''Token salvo''
                 (''O token do conv'' @ [CHR 0xEA] @ ''nio foi salvo com sucesso.'')],
          h', st)))"

definition getStatusColor :: "string \<Rightarrow> string" where
  "getStatusColor status' =
     (if status' = ''confirmed'' then ''text-green-700 bg-green-100''
      else if status' = ''pending'' then ''text-yellow-700 bg-yellow-100''
      else if status' = ''cancelled'' then ''text-red-700 bg-red-100''
      else if status' = ''completed'' then ''text-blue-700 bg-blue-100''
      else ''text-gray-700 bg-gray-100'')"

definition getStatusText :: "string \<Rightarrow> string" where
  "getStatusText status' =
     (if status' = ''confirmed'' then ''Confirmado''
      else if status' = ''pending'' then ''Pendente''
      else if status' = ''cancelled'' then ''Cancelado''
      else if status' = ''completed'' then ''Conclu'' @ [CHR 0xED] @ ''do''
      else status')"

section \<open>What a render shows\<close>

text \<open>
  The payment line of the detail panel; the source writes the expression inline in the
  markup.
\<close>

definition paymentMethodLabel :: "'a appointment_scheme \<Rightarrow> string" where
  "paymentMethodLabel appointment =
     (if paymentMethod appointment = ''private'' then ''Particular''
      else ''Conv'' @ [CHR 0xEA] @ ''nio ('' @ insuranceType appointment @ '')'')"

text \<open>
  The parts of the markup, in the order of the source. The detail panel is given by the
  lines the component computes itself: the formatted date, the time range, the payment
  line, the class and the text of the status badge. The lines that print a property as it
  is (patient, psychologist, room) or a number (value) carry no decision of the component
  and are not listed, and neither is the debugging \<^verbatim>\<open>console.log\<close>. The selector is given
  by its \<^verbatim>\<open>defaultValue\<close>, the value it holds and its items (value and text); the
  dialog, shown while it is open, by the values of its three inputs.
\<close>

datatype widget =
    DetailPanel string string string string string
  | TokenEditor string
  | StatusSelector string string "(string \<times> string) list"
  | RescheduleButton
  | DeleteButton
  | CloseButton
  | RescheduleDialog string string string

text \<open>The markup that the component returns, given the formatted date.\<close>

definition markup ::
  "string \<Rightarrow> user option \<Rightarrow> 'a appointment_scheme \<Rightarrow> cstate \<Rightarrow> widget list" where
  "markup fd u appointment st =
     [DetailPanel fd
                  (startTime appointment @ '' - '' @ endTime appointment)
                  (paymentMethodLabel appointment)
                  (getStatusColor (status appointment))
                  (getStatusText (status appointment))]
     @ (if shouldShowTokenInput u appointment
        then [TokenEditor (insuranceToken_draft st)] else [])
     @ (if canManage u
        then [StatusSelector (status appointment) (selectValue st)
                [(''pending'', ''Pendente''),
                 (''confirmed'', ''Confirmado''),
                 (''cancelled'', ''Cancelado'')]]
        else [])
     @ (if canManage u then [RescheduleButton, DeleteButton] else [])
     @ [CloseButton]
     @ (if isReschedulingOpen st
        then [RescheduleDialog (newDate st) (newStartTime st) (newEndTime st)] else [])"

text \<open>
  The first thing a run of the component function computes after its hooks:
  \<^verbatim>\<open>format(new Date(appointment.date), "dd 'de' MMMM 'de' yyyy", { locale: ptBR })\<close>. When
  the date string does not parse, \<^verbatim>\<open>format\<close> throws.
\<close>

definition formattedDate :: "env \<Rightarrow> 'a appointment_scheme \<Rightarrow> error + string" where
  "formattedDate e appointment =
     (case new_Date e (date appointment) of
        None \<Rightarrow> Inl RangeError
      | Some d \<Rightarrow>
          Inr (format_ptBR e d (''dd '' @ [CHR 0x27] @ ''de'' @ [CHR 0x27] @ '' MMMM ''
                                 @ [CHR 0x27] @ ''de'' @ [CHR 0x27] @ '' yyyy'')))"

text \<open>
  One run of the component function: the markup, or the exception of \<open>formattedDate\<close>, in
  which case the render yields nothing.
\<close>

definition render ::
  "env \<Rightarrow> user option \<Rightarrow> 'a appointment_scheme \<Rightarrow> cstate \<Rightarrow> error + widget list" where
  "render e u appointment st =
     (case formattedDate e appointment of
        Inl err \<Rightarrow> Inl err
      | Inr fd \<Rightarrow> Inr (markup fd u appointment st))"

text \<open>What is on the screen after a render: its markup, or nothing when it threw.\<close>

definition shown :: "error + widget list \<Rightarrow> widget list" where
  "shown r = (case r of Inl err \<Rightarrow> [] | Inr view \<Rightarrow> view)"

section \<open>Events\<close>

text \<open>
  What the user can do to a part on the screen: type into an input, pick an item of the
  selector, click a button, or dismiss the open dialog (the dialog then reports the new
  open flag through \<^verbatim>\<open>onOpenChange\<close>).
\<close>

datatype event =
    TypeToken string
  | ClickSaveToken
  | PickStatus string
  | ClickReschedule
  | ClickDelete
  | ClickClose
  | DialogOpenChange bool
  | TypeNewDate string
  | TypeNewStartTime string
  | TypeNewEndTime string
  | ClickCancel
  | ClickConfirm

text \<open>
  What each event sets off. The select is uncontrolled: picking an item makes it hold that
  item's value, and it reports through \<^verbatim>\<open>onValueChange\<close>, to which the markup attaches
  \<open>handleStatusChange\<close>, only when the value it holds has changed; picking the item it
  already holds sets off nothing.
\<close>

fun handle ::
  "env \<Rightarrow> ref \<Rightarrow> event \<Rightarrow> 'a heap \<times> cstate \<Rightarrow> effect list \<times> 'a heap \<times> cstate" where
  "handle e a (TypeToken v) (h, st) = ([], h, st\<lparr> insuranceToken_draft := v \<rparr>)"
| "handle e a ClickSaveToken (h, st) = handleSaveToken a (h, st)"
| "handle e a (PickStatus v) (h, st) =
     (if v = selectValue st then ([], h, st)
      else handleStatusChange a v (h, st\<lparr> selectValue := v \<rparr>))"
| "handle e a ClickReschedule (h, st) = handleOpenReschedule e a (h, st)"
| "handle e a ClickDelete (h, st) = handleDelete e a (h, st)"
| "handle e a ClickClose (h, st) = ([OnClose], h, st)"
| "handle e a (DialogOpenChange b) (h, st) = ([], h, st\<lparr> isReschedulingOpen := b \<rparr>)"
| "handle e a (TypeNewDate v) (h, st) = ([], h, st\<lparr> newDate := v \<rparr>)"
| "handle e a (TypeNewStartTime v) (h, st) = ([], h, st\<lparr> newStartTime := v \<rparr>)"
| "handle e a (TypeNewEndTime v) (h, st) = ([], h, st\<lparr> newEndTime := v \<rparr>)"
| "handle e a ClickCancel (h, st) = ([], h, st\<lparr> isReschedulingOpen := False \<rparr>)"
| "handle e a ClickConfirm (h, st) = handleReschedule a (h, st)"

text \<open>
  Which events a part on the screen lets the user raise. The selector lets the user pick
  any of its items, the one it holds included.
\<close>

fun offers :: "widget \<Rightarrow> event \<Rightarrow> bool" where
  "offers (TokenEditor t) (TypeToken v) = True"
| "offers (TokenEditor t) ClickSaveToken = True"
| "offers (StatusSelector d held items) (PickStatus v) = (v \<in> set (map fst items))"
| "offers RescheduleButton ClickReschedule = True"
| "offers DeleteButton ClickDelete = True"
| "offers CloseButton ClickClose = True"
| "offers (RescheduleDialog d s t) (DialogOpenChange b) = True"
| "offers (RescheduleDialog d s t) (TypeNewDate v) = True"
| "offers (RescheduleDialog d s t) (TypeNewStartTime v) = True"
| "offers (RescheduleDialog d s t) (TypeNewEndTime v) = True"
| "offers (RescheduleDialog d s t) ClickCancel = True"
| "offers (RescheduleDialog d s t) ClickConfirm = True"
| "offers w ev = False"

definition enabled :: "widget list \<Rightarrow> event \<Rightarrow> bool" where
  "enabled view ev = list_ex (\<lambda>w. offers w ev) view"

text \<open>
  One interaction: an event takes effect when a part on the screen offers it; an event
  that no part on the screen offers, or any event when the render threw, cannot happen and
  changes nothing.
\<close>

definition react ::
  "env \<Rightarrow> user option \<Rightarrow> ref \<Rightarrow> event \<Rightarrow> 'a heap \<times> cstate \<Rightarrow> effect list \<times> 'a heap \<times> cstate"
  where
  "react e u a ev = (\<lambda>(h, st).
     if enabled (shown (render e u (h ! a) st)) ev then handle e a ev (h, st)
     else ([], h, st))"

text \<open>
  The life of one mounted component: the local state starts from the appointment, and the
  interactions follow one another, each with the answers the surroundings give at that
  moment. The calls are collected in order.
\<close>

definition mount :: "ref \<Rightarrow> 'a heap \<Rightarrow> 'a heap \<times> cstate" where
  "mount a h = (h, initialState (h ! a))"

fun run ::
  "user option \<Rightarrow> ref \<Rightarrow> (env \<times> event) list \<Rightarrow> 'a heap \<times> cstate
     \<Rightarrow> effect list \<times> 'a heap \<times> cstate" where
  "run u a [] (h, st) = ([], h, st)"
| "run u a ((e, ev) # rest) (h, st) =
     (let (tr, h1, st1) = react e u a ev (h, st);
          (tr', h2, st2) = run u a rest (h1, st1)
      in (tr @ tr', h2, st2))"

section \<open>Example inputs\<close>

text \<open>
  An insured, pending appointment, the same with a payment method that is neither
  \<open>private\<close> nor \<open>insurance\<close>, and the same with a date that does not parse; surroundings
  that find no slot and surroundings that find one, both of which parse the day of the
  example and print it, and print the day of the example slot; a state with the dialog
  open after edits in which the start lies after the end.
\<close>

definition exampleAppointment :: appointment where
  "exampleAppointment =
     \<lparr> id_appt = ''apt-1'', psychologistId = ''psy-1'', date = ''2024-05-10'',
       startTime = ''14:00'', endTime = ''15:00'', paymentMethod = ''insurance'',
       insuranceType = ''Unimed'', insuranceToken = None, status = ''pending'' \<rparr>"

definition voucherAppointment :: appointment where
  "voucherAppointment = exampleAppointment\<lparr> paymentMethod := ''voucher'' \<rparr>"

definition undatedAppointment :: appointment where
  "undatedAppointment = exampleAppointment\<lparr> date := [] \<rparr>"

definition exampleSlot :: slot where
  "exampleSlot =
     \<lparr> date_slot = 1717372800000, startTime_slot = ''09:00'', endTime_slot = ''10:00'' \<rparr>"

definition noSlotEnv :: env where
  "noSlotEnv = \<lparr> findNextAvailableSlot = (\<lambda>p. None),
                 format = (\<lambda>d p. ''2024-06-03''),
                 format_ptBR = (\<lambda>d p. ''10 de maio de 2024''),
                 new_Date = (\<lambda>s. if s = ''2024-05-10'' then Some 1715299200000 else None),
                 window_confirm = (\<lambda>m. True) \<rparr>"

definition slotEnv :: env where
  "slotEnv = \<lparr> findNextAvailableSlot = (\<lambda>p. Some exampleSlot),
               format = (\<lambda>d p. ''2024-06-03''),
               format_ptBR = (\<lambda>d p. ''10 de maio de 2024''),
               new_Date = (\<lambda>s. if s = ''2024-05-10'' then Some 1715299200000 else None),
               window_confirm = (\<lambda>m. True) \<rparr>"

definition adminUser :: "user option" where
  "adminUser = Some \<lparr> role = ''admin'' \<rparr>"

definition patientUser :: "user option" where
  "patientUser = Some \<lparr> role = ''patient'' \<rparr>"

definition editedState :: cstate where
  "editedState =
     \<lparr> isReschedulingOpen = True, newDate = ''2030-01-01'', newStartTime = ''16:00'',
       newEndTime = ''15:00'', insuranceToken_draft = ''AUTH-123'',
       selectValue = ''pending'' \<rparr>"

section \<open>Theorems\<close>

subsection \<open>The token editor\<close>

text \<open>
  C1. For every payment method, status and session user, \<open>shouldShowTokenInput\<close> is true
  if and only if the payment method is \<open>insurance\<close>, the status is \<open>pending\<close> or
  \<open>confirmed\<close>, and a user is signed in whose role is one of \<open>admin\<close>, \<open>receptionist\<close>,
  \<open>psychologist\<close>.
\<close>

theorem shouldShowTokenInput_iff:
  "shouldShowTokenInput u appointment \<longleftrightarrow>
     paymentMethod appointment = ''insurance'' \<and>
     status appointment \<in> {''pending'', ''confirmed''} \<and>
     (\<exists>usr. u = Some usr \<and> role usr \<in> {''admin'', ''receptionist'', ''psychologist''})"
  by (cases u)
     (auto simp: shouldShowTokenInput_def canEditToken_def isAdmin_def isReceptionist_def
        isPsychologist_def)

subsection \<open>Opening the reschedule dialog\<close>

text \<open>
  C2, as the code has it. Opening the dialog asks for the next slot of the appointment's
  psychologist and opens the dialog. When a slot is returned, the draft date becomes the
  slot's date printed as \<open>yyyy-MM-dd\<close> and the draft start and end become the slot's.
  When none is returned, the three draft fields are left as they were; on an open right
  after the first render that is the appointment's own date, start and end.
\<close>

theorem handleOpenReschedule_draft:
  assumes "handleOpenReschedule e a (h, st) = (tr, h', st')"
  shows "tr = [FindNextAvailableSlot (psychologistId (h ! a))] \<and> h' = h \<and>
         isReschedulingOpen st' \<and>
         (case findNextAvailableSlot e (psychologistId (h ! a)) of
            Some s \<Rightarrow> newDate st' = format e (date_slot s) ''yyyy-MM-dd'' \<and>
                      newStartTime st' = startTime_slot s \<and>
                      newEndTime st' = endTime_slot s
          | None \<Rightarrow> newDate st' = newDate st \<and> newStartTime st' = newStartTime st \<and>
                    newEndTime st' = newEndTime st \<and>
                    (st = initialState (h ! a) \<longrightarrow>
                       newDate st' = date (h ! a) \<and> newStartTime st' = startTime (h ! a) \<and>
                       newEndTime st' = endTime (h ! a)))"
  using assms
  by (auto simp: handleOpenReschedule_def Let_def initialState_def split: option.splits)

text \<open>
  The first open of the example appointment, once with a slot found and once with none.
\<close>

theorem handleOpenReschedule_draft_witness:
  "handleOpenReschedule slotEnv 0 ([exampleAppointment], initialState exampleAppointment) =
     ([FindNextAvailableSlot ''psy-1''], [exampleAppointment],
      \<lparr> isReschedulingOpen = True, newDate = ''2024-06-03'', newStartTime = ''09:00'',
        newEndTime = ''10:00'', insuranceToken_draft = [], selectValue = ''pending'' \<rparr>) \<and>
   handleOpenReschedule noSlotEnv 0 ([exampleAppointment], initialState exampleAppointment) =
     ([FindNextAvailableSlot ''psy-1''], [exampleAppointment],
      \<lparr> isReschedulingOpen = True, newDate = ''2024-05-10'', newStartTime = ''14:00'',
        newEndTime = ''15:00'', insuranceToken_draft = [], selectValue = ''pending'' \<rparr>) \<and>
   findNextAvailableSlot slotEnv ''psy-1'' = Some exampleSlot \<and>
   findNextAvailableSlot noSlotEnv ''psy-1'' = None"
proof -
  have s: "handleOpenReschedule slotEnv 0 ([exampleAppointment], initialState exampleAppointment) =
     ([FindNextAvailableSlot ''psy-1''], [exampleAppointment],
      \<lparr> isReschedulingOpen = True, newDate = ''2024-06-03'', newStartTime = ''09:00'',
        newEndTime = ''10:00'', insuranceToken_draft = [], selectValue = ''pending'' \<rparr>)"
    by (simp add: handleOpenReschedule_def slotEnv_def exampleAppointment_def exampleSlot_def
        initialState_def)
  have n: "handleOpenReschedule noSlotEnv 0 ([exampleAppointment], initialState exampleAppointment) =
     ([FindNextAvailableSlot ''psy-1''], [exampleAppointment],
      \<lparr> isReschedulingOpen = True, newDate = ''2024-05-10'', newStartTime = ''14:00'',
        newEndTime = ''15:00'', insuranceToken_draft = [], selectValue = ''pending'' \<rparr>)"
    by (simp add: handleOpenReschedule_def noSlotEnv_def exampleAppointment_def
        initialState_def)
  from handleOpenReschedule_draft[OF s] handleOpenReschedule_draft[OF n] s n
  show ?thesis by (simp add: slotEnv_def noSlotEnv_def)
qed

text \<open>
  C2 as stated fails on a re-open. An administrator opens the dialog (no slot), types a new
  date, cancels and opens again (no slot): the draft date is the typed one, not the
  appointment's.
\<close>

theorem reopen_after_edit_counterexample:
  "findNextAvailableSlot noSlotEnv (psychologistId exampleAppointment) = None \<and>
   newDate (snd (snd (run adminUser 0
      [(noSlotEnv, ClickReschedule), (noSlotEnv, TypeNewDate ''2030-01-01''),
       (noSlotEnv, ClickCancel), (noSlotEnv, ClickReschedule)]
      (mount 0 [exampleAppointment])))) = ''2030-01-01'' \<and>
   date exampleAppointment = ''2024-05-10''"
  by (simp add: noSlotEnv_def exampleAppointment_def) code_simp

subsection \<open>Cancelling and confirming the dialog\<close>

lemma shown_render:
  "shown (render e u appointment st) =
     (case formattedDate e appointment of
        Inl err \<Rightarrow> []
      | Inr fd \<Rightarrow> markup fd u appointment st)"
  by (simp add: shown_def render_def split: sum.splits)

lemma render_Inr:
  assumes "render e u appointment st = Inr view"
  shows "\<exists>fd. formattedDate e appointment = Inr fd \<and> view = markup fd u appointment st \<and>
              shown (render e u appointment st) = view"
  using assms by (auto simp: render_def shown_def split: sum.splits)

lemma enabled_dialog:
  assumes "isReschedulingOpen st"
  shows "enabled (markup fd u appointment st) ClickCancel"
    and "enabled (markup fd u appointment st) ClickConfirm"
  using assms by (simp_all add: enabled_def markup_def)

text \<open>
  C3, as the code has it. The callback of Cancel makes no external call, leaves the store
  alone and only closes the dialog: the three draft fields keep the values they had, edits
  included. Whenever the component is on the screen with the dialog open, Cancel is
  offered and a click on it does exactly that; when the render threw there is nothing to
  click, and nothing happens.
\<close>

theorem cancel_only_closes:
  "handle e a ClickCancel (h, st) = ([], h, st\<lparr> isReschedulingOpen := False \<rparr>) \<and>
   (isReschedulingOpen st \<and> render e u (h ! a) st = Inr view \<longrightarrow>
      enabled view ClickCancel \<and>
      react e u a ClickCancel (h, st) = ([], h, st\<lparr> isReschedulingOpen := False \<rparr>) \<and>
      newDate (snd (snd (react e u a ClickCancel (h, st)))) = newDate st \<and>
      newStartTime (snd (snd (react e u a ClickCancel (h, st)))) = newStartTime st \<and>
      newEndTime (snd (snd (react e u a ClickCancel (h, st)))) = newEndTime st \<and>
      \<not> isReschedulingOpen (snd (snd (react e u a ClickCancel (h, st))))) \<and>
   (render e u (h ! a) st = Inl err \<longrightarrow> react e u a ClickCancel (h, st) = ([], h, st))"
proof -
  have cb: "handle e a ClickCancel (h, st) = ([], h, st\<lparr> isReschedulingOpen := False \<rparr>)"
    by simp
  have "enabled view ClickCancel \<and>
        react e u a ClickCancel (h, st) = ([], h, st\<lparr> isReschedulingOpen := False \<rparr>)"
    if o: "isReschedulingOpen st" and r: "render e u (h ! a) st = Inr view"
  proof -
    from render_Inr[OF r] obtain fd where v: "view = markup fd u (h ! a) st"
      and s: "shown (render e u (h ! a) st) = view" by blast
    from enabled_dialog(1)[OF o, of fd u "h ! a"] v have en: "enabled view ClickCancel"
      by simp
    with s show ?thesis by (simp add: react_def)
  qed
  moreover have "react e u a ClickCancel (h, st) = ([], h, st)"
    if "render e u (h ! a) st = Inl err"
    using that by (simp add: react_def shown_def enabled_def)
  ultimately show ?thesis using cb by simp
qed

text \<open>Cancel on the edited example state.\<close>

theorem cancel_only_closes_witness:
  "isReschedulingOpen editedState \<and>
   render noSlotEnv adminUser ([exampleAppointment] ! 0) editedState =
     Inr (markup ''10 de maio de 2024'' adminUser exampleAppointment editedState) \<and>
   react noSlotEnv adminUser 0 ClickCancel ([exampleAppointment], editedState) =
     ([], [exampleAppointment],
      \<lparr> isReschedulingOpen = False, newDate = ''2030-01-01'', newStartTime = ''16:00'',
        newEndTime = ''15:00'', insuranceToken_draft = ''AUTH-123'',
        selectValue = ''pending'' \<rparr>)"
proof -
  have o: "isReschedulingOpen editedState" by (simp add: editedState_def)
  have r: "render noSlotEnv adminUser ([exampleAppointment] ! 0) editedState =
     Inr (markup ''10 de maio de 2024'' adminUser exampleAppointment editedState)"
    by (simp add: render_def formattedDate_def noSlotEnv_def exampleAppointment_def)
  from cancel_only_closes[of noSlotEnv 0 "[exampleAppointment]" editedState adminUser
      "markup ''10 de maio de 2024'' adminUser exampleAppointment editedState"] o r
  show ?thesis by (simp add: editedState_def)
qed

text \<open>
  C3 as stated fails: after open, an edit of the start time and Cancel, the only call made
  is the slot search of the open, and the draft still holds the typed start time.
\<close>

theorem cancel_keeps_edit_counterexample:
  "fst (run adminUser 0
      [(noSlotEnv, ClickReschedule), (noSlotEnv, TypeNewStartTime ''23:45''),
       (noSlotEnv, ClickCancel)] (mount 0 [exampleAppointment])) =
     [FindNextAvailableSlot ''psy-1''] \<and>
   newStartTime (snd (snd (run adminUser 0
      [(noSlotEnv, ClickReschedule), (noSlotEnv, TypeNewStartTime ''23:45''),
       (noSlotEnv, ClickCancel)] (mount 0 [exampleAppointment])))) = ''23:45'' \<and>
   startTime exampleAppointment = ''14:00''"
  by (simp add: exampleAppointment_def) code_simp

text \<open>
  C6. The callback of Confirm makes exactly one call, the reschedule operation with the
  identifier of the appointment and the three draft values as they stand, whatever they
  are, and closes the dialog. Whenever the component is on the screen with the dialog
  open, Confirm is offered and a click on it does exactly that; when the render threw
  there is nothing to click, and nothing happens.
\<close>

theorem confirm_sends_draft:
  "handle e a ClickConfirm (h, st) =
     ([RescheduleAppointment (id_appt (h ! a)) (newDate st) (newStartTime st) (newEndTime st)],
      h, st\<lparr> isReschedulingOpen := False \<rparr>) \<and>
   (isReschedulingOpen st \<and> render e u (h ! a) st = Inr view \<longrightarrow>
      enabled view ClickConfirm \<and>
      react e u a ClickConfirm (h, st) =
        ([RescheduleAppointment (id_appt (h ! a)) (newDate st) (newStartTime st)
            (newEndTime st)],
         h, st\<lparr> isReschedulingOpen := False \<rparr>) \<and>
      \<not> isReschedulingOpen (snd (snd (react e u a ClickConfirm (h, st))))) \<and>
   (render e u (h ! a) st = Inl err \<longrightarrow> react e u a ClickConfirm (h, st) = ([], h, st))"
proof -
  have cb: "handle e a ClickConfirm (h, st) =
     ([RescheduleAppointment (id_appt (h ! a)) (newDate st) (newStartTime st) (newEndTime st)],
      h, st\<lparr> isReschedulingOpen := False \<rparr>)"
    by (simp add: handleReschedule_def)
  have "enabled view ClickConfirm \<and>
        react e u a ClickConfirm (h, st) = handle e a ClickConfirm (h, st)"
    if o: "isReschedulingOpen st" and r: "render e u (h ! a) st = Inr view"
  proof -
    from render_Inr[OF r] obtain fd where v: "view = markup fd u (h ! a) st"
      and s: "shown (render e u (h ! a) st) = view" by blast
    from enabled_dialog(2)[OF o, of fd u "h ! a"] v have en: "enabled view ClickConfirm"
      by simp
    with s show ?thesis by (simp add: react_def)
  qed
  moreover have "react e u a ClickConfirm (h, st) = ([], h, st)"
    if "render e u (h ! a) st = Inl err"
    using that by (simp add: react_def shown_def enabled_def)
  ultimately show ?thesis using cb by simp
qed

text \<open>Confirm on the edited example state, whose start lies after its end.\<close>

theorem confirm_sends_draft_witness:
  "isReschedulingOpen editedState \<and>
   render noSlotEnv adminUser ([exampleAppointment] ! 0) editedState =
     Inr (markup ''10 de maio de 2024'' adminUser exampleAppointment editedState) \<and>
   react noSlotEnv adminUser 0 ClickConfirm ([exampleAppointment], editedState) =
     ([RescheduleAppointment ''apt-1'' ''2030-01-01'' ''16:00'' ''15:00''],
      [exampleAppointment],
      \<lparr> isReschedulingOpen = False, newDate = ''2030-01-01'', newStartTime = ''16:00'',
        newEndTime = ''15:00'', insuranceToken_draft = ''AUTH-123'',
        selectValue = ''pending'' \<rparr>)"
proof -
  have o: "isReschedulingOpen editedState" by (simp add: editedState_def)
  have r: "render noSlotEnv adminUser ([exampleAppointment] ! 0) editedState =
     Inr (markup ''10 de maio de 2024'' adminUser exampleAppointment editedState)"
    by (simp add: render_def formattedDate_def noSlotEnv_def exampleAppointment_def)
  from confirm_sends_draft[of noSlotEnv 0 "[exampleAppointment]" editedState adminUser
      "markup ''10 de maio de 2024'' adminUser exampleAppointment editedState"] o r
  show ?thesis by (simp add: editedState_def exampleAppointment_def)
qed

subsection \<open>Saving the token\<close>



subsection \<open>The status badge\<close>

text \<open>
  C5, as the code has it. The badge is a total function of the status string: \<open>pending\<close>
  gives the yellow classes and \<open>Pendente\<close>, \<open>confirmed\<close> the green classes and
  \<open>Confirmado\<close>, \<open>cancelled\<close> the red classes and \<open>Cancelado\<close>, \<open>completed\<close> the blue
  classes and \<open>Concluido\<close> (with an acute accent on the i); every other string gives the
  gray classes and the string itself.
\<close>

theorem status_badge_mapping:
  "(getStatusColor s, getStatusText s) =
     (if s = ''pending'' then (''text-yellow-700 bg-yellow-100'', ''Pendente'')
      else if s = ''confirmed'' then (''text-green-700 bg-green-100'', ''Confirmado'')
      else if s = ''cancelled'' then (''text-red-700 bg-red-100'', ''Cancelado'')
      else if s = ''completed''
        then (''text-blue-700 bg-blue-100'', ''Conclu'' @ [CHR 0xED] @ ''do'')
      else (''text-gray-700 bg-gray-100'', s))"
  by (simp add: getStatusColor_def getStatusText_def)

text \<open>
  C5 as stated names the labels \<open>Pending\<close> and \<open>Completed\<close>; the badge texts are the
  Portuguese ones.
\<close>

theorem status_text_counterexample:
  "getStatusText ''pending'' = ''Pendente'' \<and> getStatusText ''pending'' \<noteq> ''Pending'' \<and>
   getStatusText ''completed'' \<noteq> ''Completed''"
  by (simp add: getStatusText_def)

subsection \<open>Sessions without a managing role\<close>

lemma nonstaff_flags:
  assumes "u = None \<or>
           (\<exists>usr. u = Some usr \<and> role usr \<notin> {''admin'', ''receptionist'', ''psychologist''})"
  shows "\<not> canManage u" and "\<not> canEditToken u" and "\<not> shouldShowTokenInput u appointment"
  using assms
  by (auto simp: canManage_def canEditToken_def shouldShowTokenInput_def isAdmin_def
        isReceptionist_def isPsychologist_def)

lemma markup_nonstaff:
  assumes "\<not> canManage u" and "\<not> shouldShowTokenInput u appointment"
  shows "markup fd u appointment st =
     [DetailPanel fd (startTime appointment @ '' - '' @ endTime appointment)
        (paymentMethodLabel appointment) (getStatusColor (status appointment))
        (getStatusText (status appointment)), CloseButton]
     @ (if isReschedulingOpen st
        then [RescheduleDialog (newDate st) (newStartTime st) (newEndTime st)] else [])"
  using assms by (simp add: markup_def)

lemma enabled_closed_nonstaff:
  assumes "\<not> canManage u" and "\<not> shouldShowTokenInput u appointment"
    and "\<not> isReschedulingOpen st"
  shows "enabled (shown (render e u appointment st)) ev \<longleftrightarrow>
           ev = ClickClose \<and> (\<exists>fd. formattedDate e appointment = Inr fd)"
proof (cases "formattedDate e appointment")
  case (Inl err)
  then show ?thesis by (simp add: shown_render enabled_def)
next
  case (Inr fd)
  with assms show ?thesis
    by (cases ev) (simp_all add: shown_render markup_nonstaff enabled_def)
qed

lemma react_closed_nonstaff:
  assumes "\<not> canManage u" and "\<not> canEditToken u" and "\<not> isReschedulingOpen st"
    and "react e u a ev (h, st) = (tr, h', st')"
  shows "h' = h \<and> st' = st"
proof -
  have ns: "\<not> shouldShowTokenInput u (h ! a)"
    using assms(2) by (simp add: shouldShowTokenInput_def)
  show ?thesis
  proof (cases "ev = ClickClose")
    case True
    with assms(4) show ?thesis by (simp add: react_def split: if_splits)
  next
    case False
    with assms(1,3) ns have "\<not> enabled (shown (render e u (h ! a) st)) ev"
      by (simp add: enabled_closed_nonstaff)
    with assms(4) show ?thesis by (simp add: react_def)
  qed
qed

lemma run_closed_nonstaff:
  assumes "\<not> canManage u" and "\<not> canEditToken u" and "\<not> isReschedulingOpen st"
    and "run u a evs (h, st) = (tr, h', st')"
  shows "h' = h \<and> st' = st"
  using assms(3,4)
proof (induction evs arbitrary: tr h st)
  case Nil
  then show ?case by simp
next
  case (Cons x evs)
  obtain e ev where x: "x = (e, ev)" by (cases x)
  obtain tr1 h1 st1 where r: "react e u a ev (h, st) = (tr1, h1, st1)"
    by (cases "react e u a ev (h, st)")
  obtain tr2 h2 st2 where rr: "run u a evs (h1, st1) = (tr2, h2, st2)"
    by (cases "run u a evs (h1, st1)")
  from react_closed_nonstaff[OF assms(1,2) Cons.prems(1) r]
  have eq: "h1 = h" "st1 = st" by simp_all
  from Cons.prems(2) x r rr have fin: "h' = h2" "st' = st2" by simp_all
  from Cons.IH[of st h tr2] rr eq Cons.prems(1) fin
  have "h2 = h \<and> st2 = st" by simp
  with fin show ?case by simp
qed

text \<open>
  C7. For a session with no user, or with a user whose role is none of \<open>admin\<close>,
  \<open>receptionist\<close>, \<open>psychologist\<close>: in whatever state, the screen shows neither the token
  editor nor the status selector nor the reschedule button nor the delete button. After
  any sequence of interactions from the first render on, and likewise from any state in
  which the dialog is closed, store and local state are as they were, and a render is the
  detail panel and the close button and nothing else (or nothing at all, when the date of
  the appointment does not parse and the render throws), so that Close is the only event
  the screen offers.
\<close>

theorem nonstaff_view:
  assumes "u = None \<or>
           (\<exists>usr. u = Some usr \<and> role usr \<notin> {''admin'', ''receptionist'', ''psychologist''})"
  shows "TokenEditor t \<notin> set (shown (render e u appointment st)) \<and>
         StatusSelector d held items \<notin> set (shown (render e u appointment st)) \<and>
         RescheduleButton \<notin> set (shown (render e u appointment st)) \<and>
         DeleteButton \<notin> set (shown (render e u appointment st)) \<and>
         render e u (fst (snd (run u a evs (mount a h))) ! a)
                    (snd (snd (run u a evs (mount a h)))) =
           (case formattedDate e (h ! a) of
              Inl err \<Rightarrow> Inl err
            | Inr fd \<Rightarrow>
                Inr [DetailPanel fd (startTime (h ! a) @ '' - '' @ endTime (h ! a))
                       (paymentMethodLabel (h ! a)) (getStatusColor (status (h ! a)))
                       (getStatusText (status (h ! a))), CloseButton]) \<and>
         (enabled (shown (render e u (fst (snd (run u a evs (mount a h))) ! a)
                            (snd (snd (run u a evs (mount a h)))))) ev
            \<longleftrightarrow> ev = ClickClose \<and> (\<exists>fd. formattedDate e (h ! a) = Inr fd)) \<and>
         (\<not> isReschedulingOpen st \<longrightarrow>
            snd (run u a evs (h, st)) = (h, st) \<and>
            shown (render e u (h ! a) st) =
              (case formattedDate e (h ! a) of
                 Inl err \<Rightarrow> []
               | Inr fd \<Rightarrow>
                   [DetailPanel fd (startTime (h ! a) @ '' - '' @ endTime (h ! a))
                      (paymentMethodLabel (h ! a)) (getStatusColor (status (h ! a)))
                      (getStatusText (status (h ! a))), CloseButton]))"
proof -
  note f = nonstaff_flags[OF assms]
  have hidden: "TokenEditor t \<notin> set (shown (render e u appointment st)) \<and>
         StatusSelector d held items \<notin> set (shown (render e u appointment st)) \<and>
         RescheduleButton \<notin> set (shown (render e u appointment st)) \<and>
         DeleteButton \<notin> set (shown (render e u appointment st))"
    using f(1) f(3)[of appointment]
    by (simp add: shown_render markup_nonstaff split: sum.splits)
  obtain tr h' st' where r: "run u a evs (mount a h) = (tr, h', st')"
    by (cases "run u a evs (mount a h)")
  have closed: "\<not> isReschedulingOpen (initialState (h ! a))"
    by (simp add: initialState_def)
  with r f(1,2) have same: "h' = h \<and> st' = initialState (h ! a)"
    using run_closed_nonstaff[of u "initialState (h ! a)" a evs h tr h' st']
    by (simp add: mount_def)
  have view: "render e u (fst (snd (run u a evs (mount a h))) ! a)
                    (snd (snd (run u a evs (mount a h)))) =
           (case formattedDate e (h ! a) of
              Inl err \<Rightarrow> Inl err
            | Inr fd \<Rightarrow>
                Inr [DetailPanel fd (startTime (h ! a) @ '' - '' @ endTime (h ! a))
                       (paymentMethodLabel (h ! a)) (getStatusColor (status (h ! a)))
                       (getStatusText (status (h ! a))), CloseButton])"
    using same closed f(1) f(3)[of "h ! a"] r
    by (simp add: render_def markup_nonstaff split: sum.splits)
  have only: "enabled (shown (render e u (fst (snd (run u a evs (mount a h))) ! a)
                            (snd (snd (run u a evs (mount a h)))))) ev
            \<longleftrightarrow> ev = ClickClose \<and> (\<exists>fd. formattedDate e (h ! a) = Inr fd)"
    using same closed f(1) f(3)[of "h ! a"] r
      enabled_closed_nonstaff[of u "h ! a" "initialState (h ! a)" e ev]
    by simp
  have stay: "snd (run u a evs (h, st)) = (h, st) \<and>
            shown (render e u (h ! a) st) =
              (case formattedDate e (h ! a) of
                 Inl err \<Rightarrow> []
               | Inr fd \<Rightarrow>
                   [DetailPanel fd (startTime (h ! a) @ '' - '' @ endTime (h ! a))
                      (paymentMethodLabel (h ! a)) (getStatusColor (status (h ! a)))
                      (getStatusText (status (h ! a))), CloseButton])"
    if c: "\<not> isReschedulingOpen st"
  proof -
    obtain tr2 h2 st2 where r2: "run u a evs (h, st) = (tr2, h2, st2)"
      by (cases "run u a evs (h, st)")
    from run_closed_nonstaff[OF f(1,2) c r2] r2 have "snd (run u a evs (h, st)) = (h, st)"
      by simp
    moreover from c f(1) f(3)[of "h ! a"]
    have "shown (render e u (h ! a) st) =
              (case formattedDate e (h ! a) of
                 Inl err \<Rightarrow> []
               | Inr fd \<Rightarrow>
                   [DetailPanel fd (startTime (h ! a) @ '' - '' @ endTime (h ! a))
                      (paymentMethodLabel (h ! a)) (getStatusColor (status (h ! a)))
                      (getStatusText (status (h ! a))), CloseButton])"
      by (simp add: shown_render markup_nonstaff split: sum.splits)
    ultimately show ?thesis by simp
  qed
  from hidden view only stay show ?thesis by simp
qed

text \<open>
  A patient, and nobody signed in: what they see of the example appointment, for the
  second after clicks that nothing on the screen offers; and the patient's render of the
  appointment whose date does not parse.
\<close>

theorem nonstaff_view_witness:
  "patientUser = Some \<lparr> role = ''patient'' \<rparr> \<and>
   render noSlotEnv patientUser exampleAppointment (initialState exampleAppointment) =
     Inr [DetailPanel ''10 de maio de 2024'' ''14:00 - 15:00''
            (''Conv'' @ [CHR 0xEA] @ ''nio (Unimed)'')
            ''text-yellow-700 bg-yellow-100'' ''Pendente'', CloseButton] \<and>
   render slotEnv None
     (fst (snd (run None 0
        [(slotEnv, ClickReschedule), (slotEnv, ClickSaveToken), (slotEnv, ClickDelete)]
        (mount 0 [exampleAppointment]))) ! 0)
     (snd (snd (run None 0
        [(slotEnv, ClickReschedule), (slotEnv, ClickSaveToken), (slotEnv, ClickDelete)]
        (mount 0 [exampleAppointment])))) =
     Inr [DetailPanel ''10 de maio de 2024'' ''14:00 - 15:00''
            (''Conv'' @ [CHR 0xEA] @ ''nio (Unimed)'')
            ''text-yellow-700 bg-yellow-100'' ''Pendente'', CloseButton] \<and>
   render noSlotEnv patientUser
     (fst (snd (run patientUser 0 [(noSlotEnv, ClickClose)] (mount 0 [undatedAppointment]))) ! 0)
     (snd (snd (run patientUser 0 [(noSlotEnv, ClickClose)] (mount 0 [undatedAppointment])))) =
     Inl RangeError"
proof -
  have p: "patientUser = None \<or>
           (\<exists>usr. patientUser = Some usr \<and>
                  role usr \<notin> {''admin'', ''receptionist'', ''psychologist''})"
    by (simp add: patientUser_def)
  have n: "(None :: user option) = None \<or>
           (\<exists>usr. (None :: user option) = Some usr \<and>
                  role usr \<notin> {''admin'', ''receptionist'', ''psychologist''})"
    by simp
  from nonstaff_view[OF p, of _ noSlotEnv exampleAppointment _ _ _ _ 0 "[]"
      "[exampleAppointment]"]
  have a: "render noSlotEnv patientUser exampleAppointment (initialState exampleAppointment) =
     Inr [DetailPanel ''10 de maio de 2024'' ''14:00 - 15:00''
            (''Conv'' @ [CHR 0xEA] @ ''nio (Unimed)'')
            ''text-yellow-700 bg-yellow-100'' ''Pendente'', CloseButton]"
    by (simp add: mount_def exampleAppointment_def paymentMethodLabel_def getStatusColor_def
        getStatusText_def formattedDate_def noSlotEnv_def)
  from nonstaff_view[OF n, of _ slotEnv exampleAppointment _ _ _ _ 0
      "[(slotEnv, ClickReschedule), (slotEnv, ClickSaveToken), (slotEnv, ClickDelete)]"
      "[exampleAppointment]"]
  have b: "render slotEnv None
     (fst (snd (run None 0
        [(slotEnv, ClickReschedule), (slotEnv, ClickSaveToken), (slotEnv, ClickDelete)]
        (mount 0 [exampleAppointment]))) ! 0)
     (snd (snd (run None 0
        [(slotEnv, ClickReschedule), (slotEnv, ClickSaveToken), (slotEnv, ClickDelete)]
        (mount 0 [exampleAppointment])))) =
     Inr [DetailPanel ''10 de maio de 2024'' ''14:00 - 15:00''
            (''Conv'' @ [CHR 0xEA] @ ''nio (Unimed)'')
            ''text-yellow-700 bg-yellow-100'' ''Pendente'', CloseButton]"
    by (simp add: exampleAppointment_def paymentMethodLabel_def getStatusColor_def
        getStatusText_def formattedDate_def slotEnv_def)
  from nonstaff_view[OF p, of _ noSlotEnv exampleAppointment _ _ _ _ 0
      "[(noSlotEnv, ClickClose)]" "[undatedAppointment]"]
  have c: "render noSlotEnv patientUser
     (fst (snd (run patientUser 0 [(noSlotEnv, ClickClose)] (mount 0 [undatedAppointment]))) ! 0)
     (snd (snd (run patientUser 0 [(noSlotEnv, ClickClose)] (mount 0 [undatedAppointment])))) =
     Inl RangeError"
    by (simp add: undatedAppointment_def exampleAppointment_def formattedDate_def noSlotEnv_def)
  from a b c show ?thesis by (simp add: patientUser_def)
qed

subsection \<open>The status selector\<close>

text \<open>
  C8, as the code has it. Whenever the screen shows the status selector, the session has a
  managing role, the selector's default is the status of the appointment, the value it
  holds is the one kept for it (the status of the appointment at the first render), and
  its items are \<open>pending\<close>, \<open>confirmed\<close>, \<open>cancelled\<close> in this order, so \<open>completed\<close> is not
  among them. Picking an item other than the one the selector holds makes exactly one
  call, the update-status operation with the identifier of the appointment and the picked
  status, and makes the selector hold that status; picking the item it holds makes no call
  and changes nothing. The store is left alone either way.
\<close>

theorem status_selector_contract:
  assumes "render e u (h ! a) st = Inr view"
    and "StatusSelector d held items \<in> set view"
  shows "canManage u \<and> d = status (h ! a) \<and> held = selectValue st \<and>
         selectValue (initialState (h ! a)) = status (h ! a) \<and>
         map fst items = [''pending'', ''confirmed'', ''cancelled''] \<and>
         ''completed'' \<notin> set (map fst items) \<and>
         (\<forall>v \<in> set (map fst items).
            enabled view (PickStatus v) \<and>
            react e u a (PickStatus v) (h, st) =
              (if v = held then ([], h, st)
               else ([UpdateAppointmentStatus (id_appt (h ! a)) v], h,
                     st\<lparr> selectValue := v \<rparr>)))"
proof -
  from render_Inr[OF assms(1)] obtain fd where v: "view = markup fd u (h ! a) st"
    and s: "shown (render e u (h ! a) st) = view" by blast
  from assms(2) v have cm: "canManage u" and d: "d = status (h ! a)"
    and hv: "held = selectValue st"
    and it: "items = [(''pending'', ''Pendente''), (''confirmed'', ''Confirmado''),
                      (''cancelled'', ''Cancelado'')]"
    by (auto simp: markup_def split: if_splits)
  have "enabled view (PickStatus x) \<and>
        react e u a (PickStatus x) (h, st) =
          (if x = held then ([], h, st)
           else ([UpdateAppointmentStatus (id_appt (h ! a)) x], h, st\<lparr> selectValue := x \<rparr>))"
    if "x \<in> set (map fst items)" for x
  proof -
    from that it cm v have en: "enabled view (PickStatus x)"
      by (auto simp: enabled_def markup_def)
    with s hv show ?thesis by (simp add: react_def handleStatusChange_def)
  qed
  with cm d hv it show ?thesis by (simp add: initialState_def)
qed

text \<open>
  An administrator looks at the pending example appointment and picks \<open>cancelled\<close>.
\<close>

theorem status_selector_contract_witness:
  "render noSlotEnv adminUser ([exampleAppointment] ! 0) (initialState exampleAppointment) =
     Inr (markup ''10 de maio de 2024'' adminUser exampleAppointment
            (initialState exampleAppointment)) \<and>
   StatusSelector ''pending'' ''pending''
     [(''pending'', ''Pendente''), (''confirmed'', ''Confirmado''), (''cancelled'', ''Cancelado'')]
     \<in> set (markup ''10 de maio de 2024'' adminUser exampleAppointment
              (initialState exampleAppointment)) \<and>
   react noSlotEnv adminUser 0 (PickStatus ''cancelled'')
       ([exampleAppointment], initialState exampleAppointment) =
     ([UpdateAppointmentStatus ''apt-1'' ''cancelled''], [exampleAppointment],
      (initialState exampleAppointment)\<lparr> selectValue := ''cancelled'' \<rparr>)"
proof -
  have r: "render noSlotEnv adminUser ([exampleAppointment] ! 0)
             (initialState exampleAppointment) =
     Inr (markup ''10 de maio de 2024'' adminUser exampleAppointment
            (initialState exampleAppointment))"
    by (simp add: render_def formattedDate_def noSlotEnv_def exampleAppointment_def)
  have s: "StatusSelector ''pending'' ''pending''
     [(''pending'', ''Pendente''), (''confirmed'', ''Confirmado''), (''cancelled'', ''Cancelado'')]
     \<in> set (markup ''10 de maio de 2024'' adminUser exampleAppointment
              (initialState exampleAppointment))"
    by (simp add: markup_def adminUser_def canManage_def isAdmin_def exampleAppointment_def
        initialState_def)
  from status_selector_contract[OF r s] r s show ?thesis
    by (simp add: exampleAppointment_def)
qed

text \<open>
  C8 as stated fails for the item the selector holds: an administrator looks at the
  pending example appointment right after the first render and picks \<open>pending\<close>; the
  selector offers the item, and no call is made.
\<close>

theorem select_held_status_counterexample:
  "enabled (shown (render noSlotEnv adminUser exampleAppointment
                     (initialState exampleAppointment))) (PickStatus ''pending'') \<and>
   status exampleAppointment = ''pending'' \<and>
   fst (run adminUser 0 [(noSlotEnv, PickStatus ''pending'')] (mount 0 [exampleAppointment]))
     = []"
  by (simp add: exampleAppointment_def) code_simp

subsection \<open>The appointment object\<close>

lemma handle_store: "\<exists>xs. fst (snd (handle e a ev (h, st))) = h @ xs"
  by (cases ev)
     (simp_all add: handleSaveToken_def handleStatusChange_def handleOpenReschedule_def
        handleDelete_def handleReschedule_def alloc_def Let_def)

lemma react_store: "\<exists>xs. fst (snd (react e u a ev (h, st))) = h @ xs"
  using handle_store[of e a ev h st] by (simp add: react_def)

lemma run_store: "\<exists>xs. fst (snd (run u a evs (h, st))) = h @ xs"
proof (induction evs arbitrary: h st)
  case Nil
  then show ?case by simp
next
  case (Cons x evs)
  obtain e ev where x: "x = (e, ev)" by (cases x)
  obtain tr1 h1 st1 where r: "react e u a ev (h, st) = (tr1, h1, st1)"
    by (cases "react e u a ev (h, st)")
  from react_store[of e u a ev h st] r obtain xs where h1: "h1 = h @ xs" by auto
  from Cons.IH[of h1 st1] obtain ys where "fst (snd (run u a evs (h1, st1))) = h1 @ ys"
    by blast
  with x r h1 have "fst (snd (run u a (x # evs) (h, st))) = h @ (xs @ ys)"
    by (simp add: split_beta)
  then show ?case by blast
qed

text \<open>
  C9. No handler writes to an object it found in the store. Status change, delete, opening
  the dialog and reschedule leave the store as it is; the token save only adds a new
  object behind those that were there. So after any callback, and after any sequence of
  interactions, every object of the store before is unchanged, the appointment among them:
  what a handler changes, it asks for through a call.
\<close>

theorem appointment_never_mutated:
  "fst (snd (handleStatusChange a v (h, st))) = h \<and>
   fst (snd (handleDelete e a (h, st))) = h \<and>
   fst (snd (handleOpenReschedule e a (h, st))) = h \<and>
   fst (snd (handleReschedule a (h, st))) = h \<and>
   take (length h) (fst (snd (handleSaveToken a (h, st)))) = h \<and>
   take (length h) (fst (snd (handle e a ev (h, st)))) = h \<and>
   take (length h) (fst (snd (run u a evs (h, st)))) = h \<and>
   (a < length h \<longrightarrow> fst (snd (handle e a ev (h, st))) ! a = h ! a) \<and>
   (a < length h \<longrightarrow> fst (snd (run u a evs (h, st))) ! a = h ! a)"
proof -
  obtain xs where xs: "fst (snd (handle e a ev (h, st))) = h @ xs"
    using handle_store by blast
  obtain ys where ys: "fst (snd (run u a evs (h, st))) = h @ ys"
    using run_store by blast
  have "fst (snd (handleStatusChange a v (h, st))) = h"
    by (simp add: handleStatusChange_def)
  moreover have "fst (snd (handleDelete e a (h, st))) = h"
    by (simp add: handleDelete_def)
  moreover have "fst (snd (handleOpenReschedule e a (h, st))) = h"
    by (simp add: handleOpenReschedule_def Let_def)
  moreover have "fst (snd (handleReschedule a (h, st))) = h"
    by (simp add: handleReschedule_def)
  moreover have "take (length h) (fst (snd (handleSaveToken a (h, st)))) = h"
    by (simp add: handleSaveToken_def alloc_def)
  ultimately show ?thesis using xs ys by (simp add: nth_append)
qed

text \<open>
  An administrator types a token, saves it, picks a status, reschedules to the suggested
  slot and deletes: the example appointment is as it was.
\<close>

theorem appointment_never_mutated_witness:
  "(0::nat) < length [exampleAppointment] \<and>
   fst (snd (run adminUser 0
      [(slotEnv, TypeToken ''AUTH-123''), (slotEnv, ClickSaveToken),
       (slotEnv, PickStatus ''confirmed''), (slotEnv, ClickReschedule),
       (slotEnv, ClickConfirm), (slotEnv, ClickDelete)]
      (mount 0 [exampleAppointment]))) ! 0 = exampleAppointment \<and>
   fst (snd (handle slotEnv 0 ClickSaveToken ([exampleAppointment], editedState))) ! 0 =
     exampleAppointment"
  using appointment_never_mutated[of 0 "''confirmed''" "[exampleAppointment]" editedState
      slotEnv ClickSaveToken adminUser "[]"]
    appointment_never_mutated[of 0 "''confirmed''" "[exampleAppointment]"
      "initialState exampleAppointment" slotEnv ClickSaveToken adminUser
      "[(slotEnv, TypeToken ''AUTH-123''), (slotEnv, ClickSaveToken),
        (slotEnv, PickStatus ''confirmed''), (slotEnv, ClickReschedule),
        (slotEnv, ClickConfirm), (slotEnv, ClickDelete)]"]
  by (simp add: mount_def)

subsection \<open>The payment line\<close>

text \<open>
  C10. The payment line depends on the payment method only through its equality with the
  string \<open>private\<close>: for \<open>private\<close> it is \<open>Particular\<close>, and for every other value,
  \<open>insurance\<close> or not, it is the insurance form, \<open>Convenio\<close> (with a circumflex on the e)
  followed by the insurance type in parentheses. Whenever the component renders, that is
  the payment line of the detail panel, the first part of the markup.
\<close>

theorem paymentMethodLabel_branch:
  "paymentMethodLabel appointment =
     (if paymentMethod appointment = ''private'' then ''Particular''
      else ''Conv'' @ [CHR 0xEA] @ ''nio ('' @ insuranceType appointment @ '')'') \<and>
   (paymentMethod appointment \<noteq> ''private'' \<longrightarrow>
      paymentMethodLabel appointment =
        ''Conv'' @ [CHR 0xEA] @ ''nio ('' @ insuranceType appointment @ '')'') \<and>
   (paymentMethod appointment = ''private'' \<longrightarrow>
      paymentMethodLabel appointment = ''Particular'') \<and>
   (render e u appointment st = Inr view \<longrightarrow>
      (\<exists>fd t c x. view ! 0 = DetailPanel fd t (paymentMethodLabel appointment) c x))"
  by (auto simp: paymentMethodLabel_def render_def markup_def split: sum.splits)

text \<open>
  An appointment paid by \<open>voucher\<close> is labelled as insured, a private one is not, and the
  render of the first shows the label in its panel.
\<close>

theorem paymentMethodLabel_branch_witness:
  "paymentMethod voucherAppointment \<noteq> ''private'' \<and>
   paymentMethod voucherAppointment \<noteq> ''insurance'' \<and>
   paymentMethodLabel voucherAppointment = ''Conv'' @ [CHR 0xEA] @ ''nio (Unimed)'' \<and>
   paymentMethod (exampleAppointment\<lparr> paymentMethod := ''private'' \<rparr>) = ''private'' \<and>
   paymentMethodLabel (exampleAppointment\<lparr> paymentMethod := ''private'' \<rparr>) = ''Particular'' \<and>
   render noSlotEnv None voucherAppointment (initialState voucherAppointment) =
     Inr [DetailPanel ''10 de maio de 2024'' ''14:00 - 15:00''
            (''Conv'' @ [CHR 0xEA] @ ''nio (Unimed)'')
            ''text-yellow-700 bg-yellow-100'' ''Pendente'', CloseButton]"
proof -
  have p: "paymentMethod voucherAppointment \<noteq> ''private''"
    by (simp add: voucherAppointment_def)
  have q: "paymentMethod (exampleAppointment\<lparr> paymentMethod := ''private'' \<rparr>) = ''private''"
    by simp
  have r: "render noSlotEnv None voucherAppointment (initialState voucherAppointment) =
     Inr [DetailPanel ''10 de maio de 2024'' ''14:00 - 15:00''
            (''Conv'' @ [CHR 0xEA] @ ''nio (Unimed)'')
            ''text-yellow-700 bg-yellow-100'' ''Pendente'', CloseButton]"
    by (simp add: render_def formattedDate_def markup_def noSlotEnv_def voucherAppointment_def
        exampleAppointment_def paymentMethodLabel_def getStatusColor_def getStatusText_def
        shouldShowTokenInput_def canManage_def canEditToken_def isAdmin_def
        isReceptionist_def isPsychologist_def initialState_def)
  from paymentMethodLabel_branch[of voucherAppointment noSlotEnv None
      "initialState voucherAppointment"]
    paymentMethodLabel_branch[of "exampleAppointment\<lparr> paymentMethod := ''private'' \<rparr>"
      noSlotEnv None "initialState voucherAppointment"]
    p q r
  show ?thesis by (simp add: voucherAppointment_def exampleAppointment_def)
qed

end
